theory Spec2Isabelle
  imports Complex_Main
begin

section \<open>The viewport: the DOM metrics the conversation engines read and write\<close>

text \<open>
  The scroll latch, the snap layout and the conversation controller of
  \<^verbatim>\<open>conversation.js\<close> share one scrollable container.  An element is a node id; the
  container records the metrics the engines read: \<^verbatim>\<open>scrollTop\<close>, \<^verbatim>\<open>clientHeight\<close> (a
  non-negative integer in the DOM), the height of \<^verbatim>\<open>getBoundingClientRect()\<close>, the
  computed top and bottom padding (the number \<^verbatim>\<open>parseFloat\<close> reads from the computed
  style), the \<^verbatim>\<open>offsetTop\<close> of every child and the \<^verbatim>\<open>scrollBehavior\<close> style.  The other
  numbers are JavaScript numbers read as reals (no NaN, no infinities, no rounding).

  \<^verbatim>\<open>scrollHeight\<close> is not stored: the browser computes it from the layout.  The
  container stores the height of its content without the bottom padding
  (\<open>contentHeight\<close>); the scroll height is that height plus the bottom padding, and
  never less than the client height: when content and padding fit in the viewport,
  \<^verbatim>\<open>scrollHeight\<close> reads as \<^verbatim>\<open>clientHeight\<close>.
\<close>

type_synonym element = nat

datatype behavior = Auto | Smooth

record container =
  scrollTop :: real
  contentHeight :: real
  clientHeight :: nat
  rectHeight :: real
  paddingTop :: real
  paddingBottom :: real
  offsetTop :: "element \<Rightarrow> real"
  scrollBehavior :: behavior

definition scrollHeight :: "container \<Rightarrow> real" where
  "scrollHeight c = max (real (clientHeight c)) (contentHeight c + paddingBottom c)"

text \<open>
  The browser keeps the scroll offset inside the scrollable range, from 0 to
  \<open>scrollHeight - clientHeight\<close>.  A write to \<^verbatim>\<open>scrollTop\<close> moves to the requested offset
  clamped into that range.  A write to \<^verbatim>\<open>style.paddingBottom\<close> changes the scroll
  height, and the offset is clamped into the new range before it is read again.
  \<^verbatim>\<open>scrollTo\<close> with behavior \<^verbatim>\<open>'auto'\<close> moves at once; with \<^verbatim>\<open>'smooth'\<close> it only starts an
  animation towards the clamped offset and the offset is unchanged when the call
  returns: \<open>scrollTo\<close> returns the container and the destination of the animation it
  started, if any.
\<close>

definition maxScrollTop :: "container \<Rightarrow> real" where
  "maxScrollTop c = max 0 (scrollHeight c - real (clientHeight c))"

definition clampScroll :: "container \<Rightarrow> real \<Rightarrow> real" where
  "clampScroll c y = max 0 (min y (maxScrollTop c))"

definition set_scrollTop :: "container \<Rightarrow> real \<Rightarrow> container" where
  "set_scrollTop c y = c\<lparr>scrollTop := clampScroll c y\<rparr>"

definition scrollTo :: "container \<Rightarrow> real \<Rightarrow> behavior \<Rightarrow> container \<times> real option" where
  "scrollTo c y b =
     (case b of
        Auto \<Rightarrow> (c\<lparr>scrollTop := clampScroll c y\<rparr>, None)
      | Smooth \<Rightarrow> (c, Some (clampScroll c y)))"

definition set_paddingBottom :: "container \<Rightarrow> real \<Rightarrow> container" where
  "set_paddingBottom c p =
     (let c1 = c\<lparr>paddingBottom := p\<rparr> in c1\<lparr>scrollTop := clampScroll c1 (scrollTop c1)\<rparr>)"

text \<open>A scroll offset is reachable when it lies in the scrollable range.\<close>

definition reachable :: "container \<Rightarrow> real \<Rightarrow> bool" where
  "reachable c y = (0 \<le> y \<and> y \<le> maxScrollTop c)"

text \<open>
  JavaScript's \<^verbatim>\<open>x || d\<close> on a number \<open>x\<close>: \<open>d\<close> when \<open>x\<close> is falsy (0; NaN has no
  counterpart here), \<open>x\<close> otherwise.
\<close>

definition js_or :: "real \<Rightarrow> real \<Rightarrow> real" where
  "js_or x d = (if x = 0 then d else x)"

section \<open>Configuration\<close>

record config =
  NEAR_BOTTOM_THRESHOLD :: real
  SCROLL_FOLLOW_THRESHOLD :: real

definition DEFAULT_CONFIG :: config where
  "DEFAULT_CONFIG = \<lparr>NEAR_BOTTOM_THRESHOLD = 4, SCROLL_FOLLOW_THRESHOLD = 50\<rparr>"

section \<open>The snap layout engine (\<^verbatim>\<open>createSnapLayout\<close>)\<close>

text \<open>
  The closure's variables \<^verbatim>\<open>target\<close> (an element or \<^verbatim>\<open>null\<close>) and \<^verbatim>\<open>isSnapped\<close>.  Every
  operation takes the container and the engine's state and returns them updated.
\<close>

record snap =
  target :: "element option"
  isSnapped :: bool

definition snap_init :: snap where
  "snap_init = \<lparr>target = None, isSnapped = False\<rparr>"

text \<open>What \<^verbatim>\<open>enforce\<close> returns: \<^verbatim>\<open>{ isSnapped, padding }\<close>.\<close>

record snap_result =
  res_isSnapped :: bool
  res_padding :: real

definition getContainerPadding :: "container \<Rightarrow> real" where
  "getContainerPadding c = js_or (paddingTop c) 0"

definition calculateOffset :: "container \<Rightarrow> element \<Rightarrow> real" where
  "calculateOffset c e = max 0 (offsetTop c e - getContainerPadding c)"

text \<open>
  The locals of \<^verbatim>\<open>enforce\<close> that the statements below name:
  \<^verbatim>\<open>overrideHeight || container.getBoundingClientRect().height\<close> (an override of
  \<^verbatim>\<open>null\<close> or 0 falls back to the bounding box), \<^verbatim>\<open>maxNaturalScroll\<close>, and
  \<^verbatim>\<open>neededPadding\<close>.
\<close>

definition viewportHeight :: "real option \<Rightarrow> container \<Rightarrow> real" where
  "viewportHeight overrideHeight c =
     (case overrideHeight of None \<Rightarrow> rectHeight c | Some h \<Rightarrow> js_or h (rectHeight c))"

definition maxNaturalScroll :: "real option \<Rightarrow> container \<Rightarrow> real" where
  "maxNaturalScroll overrideHeight c =
     (let currentPadding = js_or (paddingBottom c) 0;
          naturalScrollHeight = scrollHeight c - currentPadding
      in naturalScrollHeight - viewportHeight overrideHeight c)"

definition neededPadding :: "real option \<Rightarrow> container \<Rightarrow> element \<Rightarrow> real" where
  "neededPadding overrideHeight c t =
     (let snapOffset = calculateOffset c t
      in max 0 (of_int \<lceil>snapOffset - maxNaturalScroll overrideHeight c + 1\<rceil>))"

definition enforce ::
  "real option \<Rightarrow> bool \<Rightarrow> container \<times> snap \<Rightarrow> snap_result \<times> container \<times> snap" where
  "enforce overrideHeight forceSnap cs =
     (case cs of (c, s) \<Rightarrow>
       (case target s of
          None \<Rightarrow> (\<lparr>res_isSnapped = False, res_padding = 0\<rparr>, c, s)
        | Some t \<Rightarrow>
           (let snapOffset = calculateOffset c t;
                padding = neededPadding overrideHeight c t;
                c1 = set_paddingBottom c padding;
                drift = \<bar>scrollTop c1 - snapOffset\<bar>
            in if forceSnap then
                 (\<lparr>res_isSnapped = True, res_padding = padding\<rparr>,
                  set_scrollTop c1 snapOffset, s\<lparr>isSnapped := True\<rparr>)
               else if isSnapped s then
                 (if drift > 10 then
                    (\<lparr>res_isSnapped = False, res_padding = padding\<rparr>,
                     c1, s\<lparr>isSnapped := False\<rparr>)
                  else if drift > 0 then
                    (\<lparr>res_isSnapped = True, res_padding = padding\<rparr>,
                     set_scrollTop c1 snapOffset, s)
                  else (\<lparr>res_isSnapped = True, res_padding = padding\<rparr>, c1, s))
               else (\<lparr>res_isSnapped = False, res_padding = padding\<rparr>, c1, s))))"

definition setTarget :: "element \<Rightarrow> snap \<Rightarrow> snap" where
  "setTarget e s = s\<lparr>target := Some e, isSnapped := True\<rparr>"

definition getTarget :: "snap \<Rightarrow> element option" where
  "getTarget s = target s"

definition snap_clear :: "container \<times> snap \<Rightarrow> container \<times> snap" where
  "snap_clear cs =
     (case cs of (c, s) \<Rightarrow> (set_paddingBottom c 0, s\<lparr>target := None, isSnapped := False\<rparr>))"

text \<open>
  Where the engine can throw.  JavaScript raises a \<^verbatim>\<open>TypeError\<close> when a property of
  \<^verbatim>\<open>null\<close> is read.  The one property the engine reads from a value that may be
  \<^verbatim>\<open>null\<close> is \<^verbatim>\<open>element.offsetTop\<close> in \<^verbatim>\<open>calculateOffset\<close>; \<^verbatim>\<open>enforce\<close> passes it its
  \<^verbatim>\<open>target\<close>, after the \<^verbatim>\<open>if (!target) return\<close> guard.  \<open>calculateOffset_js\<close> and
  \<open>enforce_js\<close> are the two functions with that error made a result.
\<close>

datatype js_error = TypeError

definition calculateOffset_js :: "container \<Rightarrow> element option \<Rightarrow> js_error + real" where
  "calculateOffset_js c element =
     (case element of
        None \<Rightarrow> Inl TypeError
      | Some e \<Rightarrow> Inr (max 0 (offsetTop c e - getContainerPadding c)))"

definition enforce_js ::
  "real option \<Rightarrow> bool \<Rightarrow> container \<times> snap
     \<Rightarrow> js_error + (snap_result \<times> container \<times> snap)" where
  "enforce_js overrideHeight forceSnap cs =
     (case cs of (c, s) \<Rightarrow>
        if target s = None then Inr (\<lparr>res_isSnapped = False, res_padding = 0\<rparr>, c, s)
        else (case calculateOffset_js c (target s) of
                Inl err \<Rightarrow> Inl err
              | Inr snapOffset \<Rightarrow> Inr (enforce overrideHeight forceSnap (c, s))))"

text \<open>
  A later \<^verbatim>\<open>enforce\<close> call finds the DOM as the user, the stream and the window have left
  it, and only the engine's own variables as the call before left them.  A run of
  calls therefore lists, for each call, the container it finds and its two arguments.
\<close>

fun enforceCalls :: "(container \<times> real option \<times> bool) list \<Rightarrow> snap \<Rightarrow> snap" where
  "enforceCalls [] s = s"
| "enforceCalls ((c, overrideHeight, forceSnap) # calls) s =
     enforceCalls calls (snd (snd (enforce overrideHeight forceSnap (c, s))))"

section \<open>The scroll latch engine (\<^verbatim>\<open>createScrollLatch\<close>)\<close>

record latch =
  latched :: bool
  lastScrollTop :: real

definition latch_init :: latch where
  "latch_init = \<lparr>latched = True, lastScrollTop = 0\<rparr>"

definition distFromBottom :: "container \<Rightarrow> real" where
  "distFromBottom c = scrollHeight c - scrollTop c - real (clientHeight c)"

text \<open>The scroll listener; the container is the DOM at the time of the event.\<close>

definition handleScroll :: "config \<Rightarrow> container \<Rightarrow> latch \<Rightarrow> latch" where
  "handleScroll cfg c l =
     (let currentScroll = scrollTop c;
          l1 = (if currentScroll < lastScrollTop l then l\<lparr>latched := False\<rparr>
                else if distFromBottom c < NEAR_BOTTOM_THRESHOLD cfg then l\<lparr>latched := True\<rparr>
                else l)
      in l1\<lparr>lastScrollTop := currentScroll\<rparr>)"

definition isLatched :: "latch \<Rightarrow> bool" where
  "isLatched l = latched l"

definition engage :: "container \<Rightarrow> latch \<Rightarrow> latch" where
  "engage c l = l\<lparr>latched := True, lastScrollTop := scrollTop c\<rparr>"

definition disengage :: "latch \<Rightarrow> latch" where
  "disengage l = l\<lparr>latched := False\<rparr>"

text \<open>A sequence of scroll events, each with the container it fires on.\<close>

fun handleScrolls :: "config \<Rightarrow> container list \<Rightarrow> latch \<Rightarrow> latch" where
  "handleScrolls cfg [] l = l"
| "handleScrolls cfg (c # cs) l = handleScrolls cfg cs (handleScroll cfg c l)"

text \<open>
  Offsets that strictly decrease, the first one below the baseline \<open>b\<close> (the offset the
  latch saw last).
\<close>

fun decreasingFrom :: "real \<Rightarrow> real list \<Rightarrow> bool" where
  "decreasingFrom b [] = True"
| "decreasingFrom b (x # xs) = (x < b \<and> decreasingFrom x xs)"

section \<open>The conversation controller (\<^verbatim>\<open>Conversation\<close>)\<close>

text \<open>
  The controller owns the container, the two engines and the \<^verbatim>\<open>isStreaming\<close> flag.
  \<open>pendingFrames\<close> counts the \<^verbatim>\<open>requestAnimationFrame\<close> callbacks of
  \<^verbatim>\<open>scrollToMessage\<close> that have not run yet; each of them is
  \<^verbatim>\<open>snapLayout.enforce(null, true)\<close>.  \<open>smoothScroll\<close> is the destination of the smooth
  scroll in progress, if there is one.
\<close>

record conversation =
  container :: container
  scrollLatch :: latch
  snapLayout :: snap
  isStreaming :: bool
  pendingFrames :: nat
  smoothScroll :: "real option"

definition scrollToBottom :: "bool \<Rightarrow> conversation \<Rightarrow> conversation" where
  "scrollToBottom smooth cv =
     (case snap_clear (container cv, snapLayout cv) of (c1, s1) \<Rightarrow>
        (case scrollTo c1 (scrollHeight c1) (if smooth then Smooth else Auto) of (c2, a) \<Rightarrow>
           cv\<lparr>container := c2, snapLayout := s1, smoothScroll := a\<rparr>))"

text \<open>The end of a smooth scroll: the viewport arrives at its destination.\<close>

definition finishSmoothScroll :: "conversation \<Rightarrow> conversation" where
  "finishSmoothScroll cv =
     (case smoothScroll cv of
        None \<Rightarrow> cv
      | Some y \<Rightarrow>
          cv\<lparr>container := (container cv)\<lparr>scrollTop := clampScroll (container cv) y\<rparr>,
             smoothScroll := None\<rparr>)"

definition scrollToMessage :: "element option \<Rightarrow> conversation \<Rightarrow> conversation" where
  "scrollToMessage element cv =
     (case element of
        None \<Rightarrow> cv
      | Some e \<Rightarrow>
          cv\<lparr>snapLayout := setTarget e (snapLayout cv),
             isStreaming := True,
             scrollLatch := disengage (scrollLatch cv),
             container := (container cv)\<lparr>scrollBehavior := Auto\<rparr>,
             pendingFrames := Suc (pendingFrames cv)\<rparr>)"

definition animationFrame :: "conversation \<Rightarrow> conversation" where
  "animationFrame cv =
     (if pendingFrames cv = 0 then cv
      else (case enforce None True (container cv, snapLayout cv) of (r, c1, s1) \<Rightarrow>
              cv\<lparr>container := c1, snapLayout := s1, pendingFrames := pendingFrames cv - 1\<rparr>))"

definition handleStreamScroll :: "conversation \<Rightarrow> conversation" where
  "handleStreamScroll cv =
     (if isStreaming cv \<and> getTarget (snapLayout cv) \<noteq> None then
        (case enforce None False (container cv, snapLayout cv) of (r, c1, s1) \<Rightarrow>
           (let cv1 = cv\<lparr>container := c1, snapLayout := s1\<rparr>
            in if \<not> res_isSnapped r \<and> res_padding r = 0 \<and> isLatched (scrollLatch cv1)
               then (case scrollTo c1 (scrollHeight c1) Auto of (c2, a) \<Rightarrow>
                       cv1\<lparr>container := c2, smoothScroll := a\<rparr>)
               else cv1))
      else if isLatched (scrollLatch cv) then scrollToBottom False cv
      else cv)"

definition endStreaming :: "conversation \<Rightarrow> conversation" where
  "endStreaming cv = cv\<lparr>isStreaming := False\<rparr>"

section \<open>The prompt input's attachments (\<^verbatim>\<open>PromptInput\<close>)\<close>

text \<open>
  \<^verbatim>\<open>handleFiles\<close> starts one \<^verbatim>\<open>FileReader\<close> per accepted file and returns; the attachment
  is pushed by the reader's \<^verbatim>\<open>onload\<close> handler, which the browser runs later, once the
  file is read.  The state therefore holds the readers that have been started and have
  not fired yet (\<open>pending\<close>, with the file each one reads) next to the \<^verbatim>\<open>attachments\<close>
  array.
\<close>

record js_file =
  file_name :: string
  file_type :: string

record attachment =
  att_type :: string
  url :: string
  mediaType :: string
  filename :: string
  att_file :: js_file

record prompt_input =
  attachments :: "attachment list"
  pending :: "js_file list"
  textValue :: string
  isBusy :: bool

definition MAX_ATTACHMENTS :: int where
  "MAX_ATTACHMENTS = 5"

definition startsWith :: "string \<Rightarrow> string \<Rightarrow> bool" where
  "startsWith s p = (take (length p) s = p)"

definition handleFiles :: "js_file list \<Rightarrow> prompt_input \<Rightarrow> prompt_input" where
  "handleFiles files st =
     (let remaining = MAX_ATTACHMENTS - int (length (attachments st))
      in if remaining \<le> 0 then st
         else st\<lparr>pending := pending st @ take (nat remaining) files\<rparr>)"

text \<open>
  The \<^verbatim>\<open>onload\<close> handler of the \<open>i\<close>-th pending reader, with the data URL the reader
  produced.
\<close>

definition onload :: "nat \<Rightarrow> string \<Rightarrow> prompt_input \<Rightarrow> prompt_input" where
  "onload i dataUrl st =
     (if i < length (pending st) then
        (let f = pending st ! i;
             a = \<lparr>att_type = (if startsWith (file_type f) ''image/'' then ''image''
                              else if startsWith (file_type f) ''video/'' then ''video''
                              else if startsWith (file_type f) ''audio/'' then ''audio''
                              else ''file''),
                  url = dataUrl, mediaType = file_type f, filename = file_name f,
                  att_file = f\<rparr>
         in st\<lparr>attachments := attachments st @ [a],
               pending := take i (pending st) @ drop (Suc i) (pending st)\<rparr>)
      else st)"

text \<open>\<^verbatim>\<open>attachments.splice(index, 1)\<close> with the index of a rendered preview.\<close>

definition removeAttachment :: "nat \<Rightarrow> prompt_input \<Rightarrow> prompt_input" where
  "removeAttachment index st =
     st\<lparr>attachments := take index (attachments st) @ drop (Suc index) (attachments st)\<rparr>"

definition clearAttachments :: "prompt_input \<Rightarrow> prompt_input" where
  "clearAttachments st = st\<lparr>attachments := []\<rparr>"

datatype prompt_event =
  SelectFiles "js_file list"
| Loaded nat string
| Remove nat
| ClearAttachments

fun prompt_step :: "prompt_event \<Rightarrow> prompt_input \<Rightarrow> prompt_input" where
  "prompt_step (SelectFiles files) st = handleFiles files st"
| "prompt_step (Loaded i dataUrl) st = onload i dataUrl st"
| "prompt_step (Remove index) st = removeAttachment index st"
| "prompt_step ClearAttachments st = clearAttachments st"

fun prompt_run :: "prompt_event list \<Rightarrow> prompt_input \<Rightarrow> prompt_input" where
  "prompt_run [] st = st"
| "prompt_run (e # es) st = prompt_run es (prompt_step e st)"

definition prompt_init :: prompt_input where
  "prompt_init = \<lparr>attachments = [], pending = [], textValue = [], isBusy = False\<rparr>"

section \<open>Facts about the viewport and the snap layout\<close>

lemma js_or_zero: "js_or x 0 = x"
  by (simp add: js_or_def)

lemma scrollHeight_ge_clientHeight: "real (clientHeight c) \<le> scrollHeight c"
  by (simp add: scrollHeight_def)

lemma set_paddingBottom_fields:
  "paddingBottom (set_paddingBottom c p) = p"
  "contentHeight (set_paddingBottom c p) = contentHeight c"
  "clientHeight (set_paddingBottom c p) = clientHeight c"
  "rectHeight (set_paddingBottom c p) = rectHeight c"
  "paddingTop (set_paddingBottom c p) = paddingTop c"
  "offsetTop (set_paddingBottom c p) = offsetTop c"
  "scrollHeight (set_paddingBottom c p) = max (real (clientHeight c)) (contentHeight c + p)"
  by (simp_all add: set_paddingBottom_def Let_def scrollHeight_def)

lemma set_scrollTop_fields:
  "paddingBottom (set_scrollTop c y) = paddingBottom c"
  "contentHeight (set_scrollTop c y) = contentHeight c"
  "clientHeight (set_scrollTop c y) = clientHeight c"
  "rectHeight (set_scrollTop c y) = rectHeight c"
  "paddingTop (set_scrollTop c y) = paddingTop c"
  "offsetTop (set_scrollTop c y) = offsetTop c"
  "scrollHeight (set_scrollTop c y) = scrollHeight c"
  "scrollTop (set_scrollTop c y) = clampScroll c y"
  by (simp_all add: set_scrollTop_def scrollHeight_def)

lemma enforce_padding:
  assumes "target s = Some t"
  shows "paddingBottom (fst (snd (enforce oh f (c, s)))) = neededPadding oh c t"
    and "res_padding (fst (enforce oh f (c, s))) = neededPadding oh c t"
  using assms
  by (simp_all add: enforce_def Let_def set_paddingBottom_fields set_scrollTop_fields)

lemma calculateOffset_nonneg: "0 \<le> calculateOffset c e"
  by (simp add: calculateOffset_def)

lemma neededPadding_nonneg: "0 \<le> neededPadding oh c t"
  by (simp add: neededPadding_def Let_def)

lemma clampScroll_range: "0 \<le> clampScroll c y" "clampScroll c y \<le> maxScrollTop c"
  by (simp_all add: clampScroll_def maxScrollTop_def)

lemma clampScroll_id: "0 \<le> y \<Longrightarrow> y \<le> maxScrollTop c \<Longrightarrow> clampScroll c y = y"
  by (simp add: clampScroll_def)

lemma maxScrollTop_set_scrollTop: "maxScrollTop (set_scrollTop c y) = maxScrollTop c"
  by (simp add: maxScrollTop_def set_scrollTop_fields)

lemma scrollTop_set_paddingBottom:
  "scrollTop (set_paddingBottom c p) = clampScroll (c\<lparr>paddingBottom := p\<rparr>) (scrollTop c)"
  by (simp add: set_paddingBottom_def Let_def)

lemma maxScrollTop_set_paddingBottom:
  "maxScrollTop (set_paddingBottom c p) = maxScrollTop (c\<lparr>paddingBottom := p\<rparr>)"
  by (simp add: maxScrollTop_def set_paddingBottom_fields scrollHeight_def)

lemma scrollTop_set_paddingBottom_range:
  "0 \<le> scrollTop (set_paddingBottom c p)"
  "scrollTop (set_paddingBottom c p) \<le> maxScrollTop (set_paddingBottom c p)"
  by (simp_all add: scrollTop_set_paddingBottom maxScrollTop_set_paddingBottom clampScroll_range)

lemma set_paddingBottom_same:
  "0 \<le> scrollTop c \<Longrightarrow> scrollTop c \<le> maxScrollTop c
     \<Longrightarrow> set_paddingBottom c (paddingBottom c) = c"
  by (simp add: set_paddingBottom_def Let_def clampScroll_id)

lemma set_scrollTop_twice: "set_scrollTop (set_scrollTop c y) y = set_scrollTop c y"
  by (simp add: set_scrollTop_def clampScroll_def maxScrollTop_def scrollHeight_def)

lemma calculateOffset_cong:
  "offsetTop c' = offsetTop c \<Longrightarrow> paddingTop c' = paddingTop c
   \<Longrightarrow> calculateOffset c' t = calculateOffset c t"
  by (simp add: calculateOffset_def getContainerPadding_def)

lemma enforce_unfold:
  assumes "target s = Some t"
  shows "enforce oh f (c, s) =
     (let off = calculateOffset c t; p = neededPadding oh c t; c1 = set_paddingBottom c p
      in if f then (\<lparr>res_isSnapped = True, res_padding = p\<rparr>, set_scrollTop c1 off,
                    s\<lparr>isSnapped := True\<rparr>)
         else if isSnapped s then
           (if \<bar>scrollTop c1 - off\<bar> > 10 then
              (\<lparr>res_isSnapped = False, res_padding = p\<rparr>, c1, s\<lparr>isSnapped := False\<rparr>)
            else if \<bar>scrollTop c1 - off\<bar> > 0 then
              (\<lparr>res_isSnapped = True, res_padding = p\<rparr>, set_scrollTop c1 off, s)
            else (\<lparr>res_isSnapped = True, res_padding = p\<rparr>, c1, s))
         else (\<lparr>res_isSnapped = False, res_padding = p\<rparr>, c1, s))"
  using assms by (simp add: enforce_def Let_def)

lemma enforce_target: "target (snd (snd (enforce oh f (c, s)))) = target s"
  by (cases "target s") (simp_all add: enforce_def Let_def)

lemma enforce_not_forced_stays_unsnapped:
  "\<not> isSnapped s \<Longrightarrow> \<not> isSnapped (snd (snd (enforce oh False (c, s))))"
  by (cases "target s") (simp_all add: enforce_def Let_def)

lemma enforce_result_unsnapped:
  "\<not> isSnapped s \<Longrightarrow> \<not> res_isSnapped (fst (enforce oh False (c, s)))"
  by (cases "target s") (simp_all add: enforce_def Let_def)

lemma enforceCalls_stays_unsnapped:
  "\<forall>call \<in> set calls. \<not> snd (snd call) \<Longrightarrow> \<not> isSnapped s
     \<Longrightarrow> \<not> isSnapped (enforceCalls calls s)"
proof (induction calls arbitrary: s)
  case Nil
  then show ?case by simp
next
  case (Cons call calls)
  obtain c oh f where call: "call = (c, oh, f)" by (cases call) auto
  with Cons.prems have "\<not> f" by simp
  with Cons call show ?case
    by (simp add: enforce_not_forced_stays_unsnapped)
qed

lemma enforceCalls_target: "target (enforceCalls calls s) = target s"
  by (induction calls arbitrary: s) (auto simp: enforce_target)

subsection \<open>Content at least as tall as the viewport\<close>

text \<open>
  When the content alone fills the viewport, the scroll height is the content height
  plus the bottom padding, as \<^verbatim>\<open>enforce\<close> takes it to be; the padding it computes then
  makes the target's offset reachable, and a second call changes nothing.
\<close>

lemma scrollHeight_overflowing:
  "real (clientHeight c) \<le> contentHeight c \<Longrightarrow> 0 \<le> paddingBottom c
     \<Longrightarrow> scrollHeight c = contentHeight c + paddingBottom c"
  by (simp add: scrollHeight_def)

lemma maxNaturalScroll_overflowing:
  "real (clientHeight c) \<le> contentHeight c \<Longrightarrow> 0 \<le> paddingBottom c
     \<Longrightarrow> maxNaturalScroll oh c = contentHeight c - viewportHeight oh c"
  by (simp add: maxNaturalScroll_def js_or_zero scrollHeight_overflowing)

lemma neededPadding_overflowing:
  "real (clientHeight c) \<le> contentHeight c \<Longrightarrow> 0 \<le> paddingBottom c
     \<Longrightarrow> neededPadding oh c t =
           max 0 (of_int \<lceil>calculateOffset c t - (contentHeight c - viewportHeight oh c) + 1\<rceil>)"
  by (simp add: neededPadding_def Let_def maxNaturalScroll_overflowing)

lemma neededPadding_ge_overflowing:
  assumes "real (clientHeight c) \<le> contentHeight c" and "0 \<le> paddingBottom c"
  shows "calculateOffset c t - (contentHeight c - viewportHeight oh c) + 1
           \<le> neededPadding oh c t"
proof -
  let ?x = "calculateOffset c t - (contentHeight c - viewportHeight oh c) + 1"
  have "?x \<le> of_int \<lceil>?x\<rceil>" by (rule le_of_int_ceiling)
  then show ?thesis unfolding neededPadding_overflowing[OF assms] by linarith
qed

lemma neededPadding_cong_overflowing:
  assumes "real (clientHeight c) \<le> contentHeight c" and "0 \<le> paddingBottom c"
    and "0 \<le> paddingBottom c'"
    and "contentHeight c' = contentHeight c" and "clientHeight c' = clientHeight c"
    and "rectHeight c' = rectHeight c" and "offsetTop c' = offsetTop c"
    and "paddingTop c' = paddingTop c"
  shows "neededPadding oh c' t = neededPadding oh c t"
proof -
  have o': "real (clientHeight c') \<le> contentHeight c'" using assms by simp
  have vh: "viewportHeight oh c' = viewportHeight oh c"
    using assms(6) by (cases oh) (simp_all add: viewportHeight_def)
  have co: "calculateOffset c' t = calculateOffset c t"
    using assms(7,8) by (rule calculateOffset_cong)
  show ?thesis
    unfolding neededPadding_overflowing[OF o' assms(3)] neededPadding_overflowing[OF assms(1,2)]
    by (simp add: vh co assms(4))
qed

lemma force_snap_reaches_offset_when_overflowing:
  assumes "real (clientHeight c) \<le> contentHeight c" and "0 \<le> paddingBottom c"
    and "real (clientHeight c) \<le> rectHeight c + 1" and "target s = Some t"
  shows "scrollTop (fst (snd (enforce None True (c, s)))) = calculateOffset c t"
proof -
  let ?p = "neededPadding None c t"
  let ?off = "calculateOffset c t"
  let ?c1 = "set_paddingBottom c ?p"
  have "?off - (contentHeight c - rectHeight c) + 1 \<le> ?p"
    using neededPadding_ge_overflowing[OF assms(1,2), of t None] by (simp add: viewportHeight_def)
  then have "?off \<le> contentHeight c + ?p - real (clientHeight c)"
    using assms(3) by linarith
  then have "?off \<le> maxScrollTop ?c1"
    by (simp add: maxScrollTop_def set_paddingBottom_fields)
  then have "clampScroll ?c1 ?off = ?off"
    by (simp add: clampScroll_id calculateOffset_nonneg)
  then show ?thesis
    by (simp add: enforce_unfold[OF assms(4)] Let_def set_scrollTop_fields)
qed

lemma enforce_idempotent_when_overflowing:
  assumes ov: "real (clientHeight c) \<le> contentHeight c" and pb0: "0 \<le> paddingBottom c"
  shows "enforce oh f (snd (enforce oh f (c, s))) = enforce oh f (c, s)"
proof (cases "target s")
  case None
  then show ?thesis by (simp add: enforce_def)
next
  case (Some t)
  define p where "p = neededPadding oh c t"
  define off where "off = calculateOffset c t"
  define c1 where "c1 = set_paddingBottom c p"
  define c2 where "c2 = set_scrollTop c1 off"
  have off0: "0 \<le> off" by (simp add: off_def calculateOffset_nonneg)
  have pb1: "paddingBottom c1 = p" by (simp add: c1_def set_paddingBottom_fields)
  have r1: "0 \<le> scrollTop c1" "scrollTop c1 \<le> maxScrollTop c1"
    by (simp_all add: c1_def scrollTop_set_paddingBottom_range)
  have c1_fix: "set_paddingBottom c1 p = c1"
    using set_paddingBottom_same[OF r1] by (simp add: pb1)
  have np1: "neededPadding oh c1 t = p"
    unfolding p_def
    by (rule neededPadding_cong_overflowing[OF ov pb0])
       (simp_all add: c1_def p_def set_paddingBottom_fields neededPadding_nonneg)
  have off1: "calculateOffset c1 t = off"
    unfolding off_def c1_def by (rule calculateOffset_cong) (simp_all add: set_paddingBottom_fields)
  have pb2: "paddingBottom c2 = p" by (simp add: c2_def set_scrollTop_fields pb1)
  have st2: "scrollTop c2 = clampScroll c1 off" by (simp add: c2_def set_scrollTop_fields)
  have m2: "maxScrollTop c2 = maxScrollTop c1" by (simp add: c2_def maxScrollTop_set_scrollTop)
  have r2: "0 \<le> scrollTop c2" "scrollTop c2 \<le> maxScrollTop c2"
    by (simp_all add: st2 m2 clampScroll_range)
  have c2_fix: "set_paddingBottom c2 p = c2"
    using set_paddingBottom_same[OF r2] by (simp add: pb2)
  have np2: "neededPadding oh c2 t = p"
    unfolding p_def
    by (rule neededPadding_cong_overflowing[OF ov pb0])
       (simp_all add: c2_def c1_def p_def set_scrollTop_fields set_paddingBottom_fields
          neededPadding_nonneg)
  have off2: "calculateOffset c2 t = off"
    unfolding c2_def
    by (subst calculateOffset_cong[of _ c1]) (simp_all add: set_scrollTop_fields off1)
  have c2_again: "set_scrollTop c2 off = c2"
    by (simp add: c2_def set_scrollTop_twice)
  have drift2: "\<bar>scrollTop c2 - off\<bar> \<le> 10" if "\<bar>scrollTop c1 - off\<bar> \<le> 10"
    using that r1 off0 unfolding st2 clampScroll_def by linarith
  have e1: "enforce oh g (c, s) =
     (if g then (\<lparr>res_isSnapped = True, res_padding = p\<rparr>, c2, s\<lparr>isSnapped := True\<rparr>)
      else if isSnapped s then
        (if \<bar>scrollTop c1 - off\<bar> > 10 then
           (\<lparr>res_isSnapped = False, res_padding = p\<rparr>, c1, s\<lparr>isSnapped := False\<rparr>)
         else if \<bar>scrollTop c1 - off\<bar> > 0 then
           (\<lparr>res_isSnapped = True, res_padding = p\<rparr>, c2, s)
         else (\<lparr>res_isSnapped = True, res_padding = p\<rparr>, c1, s))
      else (\<lparr>res_isSnapped = False, res_padding = p\<rparr>, c1, s))" for g
    by (simp add: enforce_unfold[OF Some] Let_def p_def off_def c1_def c2_def)
  have on_c1: "enforce oh g (c1, s') =
     (if g then (\<lparr>res_isSnapped = True, res_padding = p\<rparr>, c2, s'\<lparr>isSnapped := True\<rparr>)
      else if isSnapped s' then
        (if \<bar>scrollTop c1 - off\<bar> > 10 then
           (\<lparr>res_isSnapped = False, res_padding = p\<rparr>, c1, s'\<lparr>isSnapped := False\<rparr>)
         else if \<bar>scrollTop c1 - off\<bar> > 0 then
           (\<lparr>res_isSnapped = True, res_padding = p\<rparr>, c2, s')
         else (\<lparr>res_isSnapped = True, res_padding = p\<rparr>, c1, s'))
      else (\<lparr>res_isSnapped = False, res_padding = p\<rparr>, c1, s'))"
    if "target s' = Some t" for s' g
    by (simp add: enforce_unfold[OF that] Let_def np1 off1 c1_fix c2_def)
  have on_c2: "enforce oh g (c2, s') =
     (if g then (\<lparr>res_isSnapped = True, res_padding = p\<rparr>, c2, s'\<lparr>isSnapped := True\<rparr>)
      else if isSnapped s' then
        (if \<bar>scrollTop c2 - off\<bar> > 10 then
           (\<lparr>res_isSnapped = False, res_padding = p\<rparr>, c2, s'\<lparr>isSnapped := False\<rparr>)
         else (\<lparr>res_isSnapped = True, res_padding = p\<rparr>, c2, s'))
      else (\<lparr>res_isSnapped = False, res_padding = p\<rparr>, c2, s'))"
    if "target s' = Some t" for s' g
    by (simp add: enforce_unfold[OF that] Let_def np2 off2 c2_fix c2_again)
  show ?thesis
  proof (cases f)
    case True
    then show ?thesis using Some by (simp add: e1 on_c2)
  next
    case nf: False
    show ?thesis
    proof (cases "isSnapped s")
      case False
      then show ?thesis using Some nf by (simp add: e1 on_c1)
    next
      case sn: True
      consider "\<bar>scrollTop c1 - off\<bar> > 10"
        | "\<bar>scrollTop c1 - off\<bar> > 0" "\<bar>scrollTop c1 - off\<bar> \<le> 10"
        | "scrollTop c1 = off" by linarith
      then show ?thesis
      proof cases
        case 1
        then show ?thesis using Some nf sn by (simp add: e1 on_c1)
      next
        case 2
        then show ?thesis using Some nf sn drift2[OF 2(2)] by (simp add: e1 on_c2)
      next
        case 3
        then show ?thesis using Some nf sn by (simp add: e1 on_c1)
      qed
    qed
  qed
qed

section \<open>Facts about the scroll latch\<close>

lemma handleScroll_lastScrollTop: "lastScrollTop (handleScroll cfg c l) = scrollTop c"
  by (simp add: handleScroll_def Let_def)

lemma handleScroll_up: "scrollTop c < lastScrollTop l \<Longrightarrow> \<not> latched (handleScroll cfg c l)"
  by (simp add: handleScroll_def Let_def)

lemma handleScrolls_lastScrollTop:
  "cs \<noteq> [] \<Longrightarrow> lastScrollTop (handleScrolls cfg cs l) = scrollTop (last cs)"
  by (induction cs arbitrary: l) (auto simp: handleScroll_lastScrollTop)

lemma decreasing_unlatched:
  "decreasingFrom (lastScrollTop l) (map scrollTop cs) \<Longrightarrow> cs \<noteq> []
     \<Longrightarrow> \<not> latched (handleScrolls cfg cs l)"
proof (induction cs arbitrary: l)
  case Nil
  then show ?case by simp
next
  case (Cons c cs)
  show ?case
  proof (cases cs)
    case Nil
    with Cons.prems show ?thesis by (simp add: handleScroll_up)
  next
    case (Cons d ds)
    with Cons.prems Cons.IH[of "handleScroll cfg c l"] show ?thesis
      by (simp add: handleScroll_lastScrollTop)
  qed
qed

lemma decreasingFrom_take: "decreasingFrom b xs \<Longrightarrow> decreasingFrom b (take n xs)"
proof (induction xs arbitrary: b n)
  case Nil
  then show ?case by simp
next
  case (Cons x xs)
  then show ?case by (cases n) simp_all
qed

section \<open>Facts about the attachments\<close>

lemma handleFiles_full:
  "MAX_ATTACHMENTS \<le> int (length (attachments st)) \<Longrightarrow> handleFiles files st = st"
  by (simp add: handleFiles_def Let_def)

lemma handleFiles_starts_at_most_remaining:
  "length (pending (handleFiles files st))
     \<le> length (pending st) + nat (MAX_ATTACHMENTS - int (length (attachments st)))"
  by (simp add: handleFiles_def Let_def)

text \<open>With no read pending, a selection keeps attachments and started reads within the limit.\<close>

lemma handleFiles_within_limit_when_idle:
  "pending st = [] \<Longrightarrow> int (length (attachments st)) \<le> MAX_ATTACHMENTS
     \<Longrightarrow> int (length (attachments (handleFiles files st))
              + length (pending (handleFiles files st))) \<le> MAX_ATTACHMENTS"
  by (auto simp: handleFiles_def Let_def)

section \<open>The padding that \<^verbatim>\<open>enforce\<close> applies\<close>

text \<open>
  C1.  The padding \<^verbatim>\<open>enforce\<close> applies follows the formula
  \<open>max(0, ceil(requiredOffset - maxNaturalScroll + 1))\<close>, but it does not always make
  the required offset reachable.  With 200 units of content in a viewport 500 high
  (so \<^verbatim>\<open>scrollHeight\<close> reads 500), no bottom padding and a target at offset 100, the
  call applies and returns a padding of 101, which is what the formula gives; content
  and padding still fit in the viewport, the maximum scroll offset stays 0, and offset
  100 is not reachable.
\<close>

theorem padding_leaves_offset_unreachable:
  "res_padding (fst (enforce None True
      (\<lparr>scrollTop = 0, contentHeight = 200, clientHeight = 500, rectHeight = 500,
        paddingTop = 16, paddingBottom = 0, offsetTop = (\<lambda>e. 116), scrollBehavior = Auto\<rparr>,
       \<lparr>target = Some 0, isSnapped = True\<rparr>))) = 101
   \<and> paddingBottom (fst (snd (enforce None True
      (\<lparr>scrollTop = 0, contentHeight = 200, clientHeight = 500, rectHeight = 500,
        paddingTop = 16, paddingBottom = 0, offsetTop = (\<lambda>e. 116), scrollBehavior = Auto\<rparr>,
       \<lparr>target = Some 0, isSnapped = True\<rparr>)))) = 101
   \<and> max 0 (of_int \<lceil>calculateOffset
      \<lparr>scrollTop = 0, contentHeight = 200, clientHeight = 500, rectHeight = 500,
        paddingTop = 16, paddingBottom = 0, offsetTop = (\<lambda>e. 116), scrollBehavior = Auto\<rparr> 0
      - ((scrollHeight
      \<lparr>scrollTop = 0, contentHeight = 200, clientHeight = 500, rectHeight = 500,
        paddingTop = 16, paddingBottom = 0, offsetTop = (\<lambda>e. 116), scrollBehavior = Auto\<rparr>
          - paddingBottom
      \<lparr>scrollTop = 0, contentHeight = 200, clientHeight = 500, rectHeight = 500,
        paddingTop = 16, paddingBottom = 0, offsetTop = (\<lambda>e. 116), scrollBehavior = Auto\<rparr>)
         - viewportHeight None
      \<lparr>scrollTop = 0, contentHeight = 200, clientHeight = 500, rectHeight = 500,
        paddingTop = 16, paddingBottom = 0, offsetTop = (\<lambda>e. 116), scrollBehavior = Auto\<rparr>) + 1\<rceil>) = (101 :: real)
   \<and> calculateOffset
      \<lparr>scrollTop = 0, contentHeight = 200, clientHeight = 500, rectHeight = 500,
        paddingTop = 16, paddingBottom = 0, offsetTop = (\<lambda>e. 116), scrollBehavior = Auto\<rparr> 0 = 100
   \<and> maxScrollTop (fst (snd (enforce None True
      (\<lparr>scrollTop = 0, contentHeight = 200, clientHeight = 500, rectHeight = 500,
        paddingTop = 16, paddingBottom = 0, offsetTop = (\<lambda>e. 116), scrollBehavior = Auto\<rparr>,
       \<lparr>target = Some 0, isSnapped = True\<rparr>)))) = 0
   \<and> \<not> reachable (fst (snd (enforce None True
      (\<lparr>scrollTop = 0, contentHeight = 200, clientHeight = 500, rectHeight = 500,
        paddingTop = 16, paddingBottom = 0, offsetTop = (\<lambda>e. 116), scrollBehavior = Auto\<rparr>,
       \<lparr>target = Some 0, isSnapped = True\<rparr>)))) 100"
  by (simp add: enforce_def Let_def neededPadding_def maxNaturalScroll_def viewportHeight_def
      calculateOffset_def getContainerPadding_def js_or_def scrollHeight_def
      set_paddingBottom_def set_scrollTop_def clampScroll_def maxScrollTop_def
      reachable_def)

text \<open>
  C2.  The scenario as the specification computes it does not hold: with viewport height
  500, content height 500, no bottom padding and a required offset of 600, the padding
  \<^verbatim>\<open>enforce\<close> computes is not 101; and with a bottom padding of 101 the offset 600 would
  not be reachable.
\<close>

theorem scenario_padding_not_101:
  "res_padding (fst (enforce None True
     (\<lparr>scrollTop = 0, contentHeight = 500, clientHeight = 500, rectHeight = 500,
       paddingTop = 0, paddingBottom = 0, offsetTop = (\<lambda>e. 600), scrollBehavior = Auto\<rparr>,
      \<lparr>target = Some 0, isSnapped = True\<rparr>))) \<noteq> 101
   \<and> \<not> reachable (set_paddingBottom
       \<lparr>scrollTop = 0, contentHeight = 500, clientHeight = 500, rectHeight = 500,
         paddingTop = 0, paddingBottom = 0, offsetTop = (\<lambda>e. 600), scrollBehavior = Auto\<rparr>
       101) 600"
  by (simp add: enforce_def Let_def neededPadding_def maxNaturalScroll_def viewportHeight_def
      calculateOffset_def getContainerPadding_def js_or_def scrollHeight_def
      set_paddingBottom_def set_scrollTop_def clampScroll_def maxScrollTop_def
      reachable_def)

text \<open>
  C2, as the code behaves: in that scenario the maximum natural scroll offset is
  \<open>500 - 500 = 0\<close>, so \<^verbatim>\<open>enforce\<close> computes a padding of \<open>600 - 0 + 1 = 601\<close>; once it is
  applied, offset 600 is a reachable scroll position, and a forced snap moves the
  viewport to it.
\<close>

theorem scenario_padding_601:
  "res_padding (fst (enforce None f
     (\<lparr>scrollTop = y, contentHeight = 500, clientHeight = 500, rectHeight = 500,
       paddingTop = 0, paddingBottom = 0, offsetTop = (\<lambda>e. 600), scrollBehavior = Auto\<rparr>,
      \<lparr>target = Some t, isSnapped = b\<rparr>))) = 601
   \<and> reachable (fst (snd (enforce None f
     (\<lparr>scrollTop = y, contentHeight = 500, clientHeight = 500, rectHeight = 500,
       paddingTop = 0, paddingBottom = 0, offsetTop = (\<lambda>e. 600), scrollBehavior = Auto\<rparr>,
      \<lparr>target = Some t, isSnapped = b\<rparr>)))) 600
   \<and> scrollTop (fst (snd (enforce None True
     (\<lparr>scrollTop = y, contentHeight = 500, clientHeight = 500, rectHeight = 500,
       paddingTop = 0, paddingBottom = 0, offsetTop = (\<lambda>e. 600), scrollBehavior = Auto\<rparr>,
      \<lparr>target = Some t, isSnapped = b\<rparr>)))) = 600"
proof -
  let ?c = "\<lparr>scrollTop = y, contentHeight = 500, clientHeight = 500, rectHeight = 500,
       paddingTop = 0, paddingBottom = 0, offsetTop = (\<lambda>e. 600), scrollBehavior = Auto\<rparr>"
  let ?s = "\<lparr>target = Some t, isSnapped = b\<rparr>"
  have np: "neededPadding None ?c t = 601"
    by (simp add: neededPadding_def Let_def maxNaturalScroll_def viewportHeight_def
        calculateOffset_def getContainerPadding_def js_or_def scrollHeight_def)
  have off: "calculateOffset ?c t = 600"
    by (simp add: calculateOffset_def getContainerPadding_def js_or_def)
  have t: "target ?s = Some t" by simp
  have 1: "res_padding (fst (enforce None f (?c, ?s))) = 601"
    using enforce_padding(2)[OF t, of None f ?c] np by simp
  have pb: "paddingBottom (fst (snd (enforce None f (?c, ?s)))) = 601"
    using enforce_padding(1)[OF t, of None f ?c] np by simp
  have "maxScrollTop (fst (snd (enforce None f (?c, ?s)))) = 601"
    by (simp add: enforce_unfold[OF t] Let_def np maxScrollTop_def set_paddingBottom_fields
        set_scrollTop_fields scrollHeight_def)
  then have 2: "reachable (fst (snd (enforce None f (?c, ?s)))) 600"
    by (simp add: reachable_def)
  have 3: "scrollTop (fst (snd (enforce None True (?c, ?s)))) = 600"
    by (simp add: enforce_unfold[OF t] Let_def np off set_scrollTop_fields clampScroll_def
        maxScrollTop_def set_paddingBottom_fields scrollHeight_def)
  from 1 2 3 show ?thesis by blast
qed

section \<open>Pinning a message\<close>

text \<open>
  C3.  \<^verbatim>\<open>scrollToMessage(X)\<close> followed by one \<^verbatim>\<open>enforce(null, true)\<close> (the call its
  animation-frame callback makes) does not always leave the viewport at
  \<^verbatim>\<open>calculateOffset(X)\<close>.  With 200 units of content in a viewport 500 high and \<open>X\<close> at
  offset 100, the call pads by 101, the content still fits, the scroll offset stays 0
  while \<^verbatim>\<open>calculateOffset(X)\<close> is 100, and the call returns \<^verbatim>\<open>isSnapped\<close> true.
\<close>

theorem force_snap_misses_offset:
  "scrollTop (container (animationFrame (scrollToMessage (Some 0)
      \<lparr>container =
          \<lparr>scrollTop = 0, contentHeight = 200, clientHeight = 500, rectHeight = 500,
            paddingTop = 16, paddingBottom = 0, offsetTop = (\<lambda>e. 116),
            scrollBehavior = Smooth\<rparr>,
        scrollLatch = \<lparr>latched = True, lastScrollTop = 0\<rparr>,
        snapLayout = \<lparr>target = None, isSnapped = False\<rparr>,
        isStreaming = False, pendingFrames = 0, smoothScroll = None\<rparr>))) = 0
   \<and> calculateOffset (container (animationFrame (scrollToMessage (Some 0)
      \<lparr>container =
          \<lparr>scrollTop = 0, contentHeight = 200, clientHeight = 500, rectHeight = 500,
            paddingTop = 16, paddingBottom = 0, offsetTop = (\<lambda>e. 116),
            scrollBehavior = Smooth\<rparr>,
        scrollLatch = \<lparr>latched = True, lastScrollTop = 0\<rparr>,
        snapLayout = \<lparr>target = None, isSnapped = False\<rparr>,
        isStreaming = False, pendingFrames = 0, smoothScroll = None\<rparr>))) 0 = 100
   \<and> res_isSnapped (fst (enforce None True
       (container (scrollToMessage (Some 0)
      \<lparr>container =
          \<lparr>scrollTop = 0, contentHeight = 200, clientHeight = 500, rectHeight = 500,
            paddingTop = 16, paddingBottom = 0, offsetTop = (\<lambda>e. 116),
            scrollBehavior = Smooth\<rparr>,
        scrollLatch = \<lparr>latched = True, lastScrollTop = 0\<rparr>,
        snapLayout = \<lparr>target = None, isSnapped = False\<rparr>,
        isStreaming = False, pendingFrames = 0, smoothScroll = None\<rparr>),
        snapLayout (scrollToMessage (Some 0)
      \<lparr>container =
          \<lparr>scrollTop = 0, contentHeight = 200, clientHeight = 500, rectHeight = 500,
            paddingTop = 16, paddingBottom = 0, offsetTop = (\<lambda>e. 116),
            scrollBehavior = Smooth\<rparr>,
        scrollLatch = \<lparr>latched = True, lastScrollTop = 0\<rparr>,
        snapLayout = \<lparr>target = None, isSnapped = False\<rparr>,
        isStreaming = False, pendingFrames = 0, smoothScroll = None\<rparr>))))
   \<and> scrollTop (fst (snd (enforce None True
       (container (scrollToMessage (Some 0)
      \<lparr>container =
          \<lparr>scrollTop = 0, contentHeight = 200, clientHeight = 500, rectHeight = 500,
            paddingTop = 16, paddingBottom = 0, offsetTop = (\<lambda>e. 116),
            scrollBehavior = Smooth\<rparr>,
        scrollLatch = \<lparr>latched = True, lastScrollTop = 0\<rparr>,
        snapLayout = \<lparr>target = None, isSnapped = False\<rparr>,
        isStreaming = False, pendingFrames = 0, smoothScroll = None\<rparr>),
        snapLayout (scrollToMessage (Some 0)
      \<lparr>container =
          \<lparr>scrollTop = 0, contentHeight = 200, clientHeight = 500, rectHeight = 500,
            paddingTop = 16, paddingBottom = 0, offsetTop = (\<lambda>e. 116),
            scrollBehavior = Smooth\<rparr>,
        scrollLatch = \<lparr>latched = True, lastScrollTop = 0\<rparr>,
        snapLayout = \<lparr>target = None, isSnapped = False\<rparr>,
        isStreaming = False, pendingFrames = 0, smoothScroll = None\<rparr>))))) = 0"
  by (simp add: animationFrame_def scrollToMessage_def setTarget_def
      enforce_def Let_def neededPadding_def maxNaturalScroll_def viewportHeight_def
      calculateOffset_def getContainerPadding_def js_or_def scrollHeight_def
      set_paddingBottom_def set_scrollTop_def clampScroll_def maxScrollTop_def)

section \<open>Breaking the snap\<close>

text \<open>
  C4.  If, in an \<^verbatim>\<open>enforce\<close> call without \<^verbatim>\<open>forceSnap\<close> while snapped, the drift (the
  absolute difference between the scroll offset the call reads and the required
  offset) is more than 10, the call returns \<^verbatim>\<open>isSnapped\<close> false and leaves the engine
  unsnapped; after any run of later \<^verbatim>\<open>enforce\<close> calls without \<^verbatim>\<open>forceSnap\<close>, whatever the
  DOM each of them finds, the engine is still unsnapped and a further such call returns
  false; a call with \<^verbatim>\<open>forceSnap\<close> snaps again.
\<close>

theorem snap_break_persists:
  assumes "target s = Some t" and "isSnapped s"
    and "\<bar>scrollTop (set_paddingBottom c (neededPadding oh c t)) - calculateOffset c t\<bar> > 10"
    and "\<forall>call \<in> set calls. \<not> snd (snd call)"
  shows "\<not> res_isSnapped (fst (enforce oh False (c, s)))
       \<and> \<not> isSnapped (snd (snd (enforce oh False (c, s))))
       \<and> \<not> isSnapped (enforceCalls calls (snd (snd (enforce oh False (c, s)))))
       \<and> \<not> res_isSnapped (fst (enforce oh' False
               (c', enforceCalls calls (snd (snd (enforce oh False (c, s)))))))
       \<and> isSnapped (snd (snd (enforce oh' True
               (c', enforceCalls calls (snd (snd (enforce oh False (c, s))))))))"
proof -
  let ?s1 = "snd (snd (enforce oh False (c, s)))"
  have a: "\<not> res_isSnapped (fst (enforce oh False (c, s)))" and b: "\<not> isSnapped ?s1"
    using assms(1-3) by (simp_all add: enforce_def Let_def)
  have c: "\<not> isSnapped (enforceCalls calls ?s1)"
    using assms(4) b by (rule enforceCalls_stays_unsnapped)
  have d: "\<not> res_isSnapped (fst (enforce oh' False (c', enforceCalls calls ?s1)))"
    using c by (rule enforce_result_unsnapped)
  have "target (enforceCalls calls ?s1) = Some t"
    by (simp add: enforceCalls_target enforce_target assms(1))
  then have e: "isSnapped (snd (snd (enforce oh' True (c', enforceCalls calls ?s1))))"
    by (simp add: enforce_def Let_def)
  from a b c d e show ?thesis by blast
qed

theorem snap_break_persists_witness:
  "\<not> isSnapped (enforceCalls
       [(\<lparr>scrollTop = 100, contentHeight = 900, clientHeight = 500, rectHeight = 500,
          paddingTop = 16, paddingBottom = 0, offsetTop = (\<lambda>e. 116), scrollBehavior = Auto\<rparr>,
         None, False)]
       (snd (snd (enforce None False
          (\<lparr>scrollTop = 60, contentHeight = 700, clientHeight = 500, rectHeight = 500,
            paddingTop = 16, paddingBottom = 0, offsetTop = (\<lambda>e. 116), scrollBehavior = Auto\<rparr>,
           \<lparr>target = Some 0, isSnapped = True\<rparr>)))))"
proof -
  let ?c = "\<lparr>scrollTop = 60, contentHeight = 700, clientHeight = 500, rectHeight = 500,
            paddingTop = 16, paddingBottom = 0, offsetTop = (\<lambda>e. 116::real),
            scrollBehavior = Auto\<rparr>"
  let ?d = "\<lparr>scrollTop = 100, contentHeight = 900, clientHeight = 500, rectHeight = 500,
            paddingTop = 16, paddingBottom = 0, offsetTop = (\<lambda>e. 116::real),
            scrollBehavior = Auto\<rparr>"
  let ?s = "\<lparr>target = Some (0::nat), isSnapped = True\<rparr>"
  have h1: "target ?s = Some 0" by simp
  have h2: "isSnapped ?s" by simp
  have h3: "\<bar>scrollTop (set_paddingBottom ?c (neededPadding None ?c 0)) - calculateOffset ?c 0\<bar> > 10"
    by (simp add: neededPadding_def Let_def maxNaturalScroll_def viewportHeight_def
        calculateOffset_def getContainerPadding_def js_or_def set_paddingBottom_def
        clampScroll_def maxScrollTop_def scrollHeight_def)
  have h4: "\<forall>call \<in> set [(?d, None :: real option, False)]. \<not> snd (snd call)" by simp
  from snap_break_persists [OF h1 h2 h3 h4] show ?thesis by blast
qed

section \<open>The latch under upward scrolling\<close>

text \<open>
  C5.  For every sequence of scroll events whose offsets strictly decrease (the first
  one below the offset the latch saw last), the latch is disengaged after the first
  event and after every later event of the sequence, whatever the distance from the
  bottom.  The next event re-engages it exactly when it does not move upward and its
  distance from the bottom (scroll height - offset - client height) is strictly below
  the re-engage threshold.  An upward motion of one unit disengages any latch.
\<close>

theorem latch_disengaged_while_scrolling_up:
  assumes "decreasingFrom (lastScrollTop l) (map scrollTop evs)" and "evs \<noteq> []"
  shows "(\<forall>n \<in> {1..length evs}. \<not> latched (handleScrolls cfg (take n evs) l))
       \<and> (latched (handleScroll cfg e (handleScrolls cfg evs l))
            \<longleftrightarrow> scrollTop (last evs) \<le> scrollTop e
                \<and> distFromBottom e < NEAR_BOTTOM_THRESHOLD cfg)
       \<and> \<not> latched (handleScroll cfg (e\<lparr>scrollTop := lastScrollTop l' - 1\<rparr>) l')"
proof -
  have 1: "\<not> latched (handleScrolls cfg (take n evs) l)" if "n \<in> {1..length evs}" for n
  proof -
    have "decreasingFrom (lastScrollTop l) (map scrollTop (take n evs))"
      using assms(1) by (simp add: take_map[symmetric] decreasingFrom_take)
    moreover have "take n evs \<noteq> []" using that assms(2) by auto
    ultimately show ?thesis by (rule decreasing_unlatched)
  qed
  have off: "\<not> latched (handleScrolls cfg evs l)"
    using assms by (rule decreasing_unlatched)
  have 2: "latched (handleScroll cfg e (handleScrolls cfg evs l))
            \<longleftrightarrow> scrollTop (last evs) \<le> scrollTop e
                \<and> distFromBottom e < NEAR_BOTTOM_THRESHOLD cfg"
    using off handleScrolls_lastScrollTop[OF assms(2), of cfg l]
    by (auto simp: handleScroll_def Let_def)
  have 3: "\<not> latched (handleScroll cfg (e\<lparr>scrollTop := lastScrollTop l' - 1\<rparr>) l')"
    by (rule handleScroll_up) simp
  from 1 2 3 show ?thesis by blast
qed

theorem latch_disengaged_while_scrolling_up_witness:
  "decreasingFrom (lastScrollTop \<lparr>latched = True, lastScrollTop = 100\<rparr>)
     (map scrollTop
       [\<lparr>scrollTop = 99, contentHeight = 600, clientHeight = 500, rectHeight = 500,
          paddingTop = 0, paddingBottom = 0, offsetTop = (\<lambda>e. 0), scrollBehavior = Auto\<rparr>,
        \<lparr>scrollTop = 98, contentHeight = 600, clientHeight = 500, rectHeight = 500,
          paddingTop = 0, paddingBottom = 0, offsetTop = (\<lambda>e. 0), scrollBehavior = Auto\<rparr>])
   \<and> \<not> latched (handleScrolls DEFAULT_CONFIG
       [\<lparr>scrollTop = 99, contentHeight = 600, clientHeight = 500, rectHeight = 500,
          paddingTop = 0, paddingBottom = 0, offsetTop = (\<lambda>e. 0), scrollBehavior = Auto\<rparr>,
        \<lparr>scrollTop = 98, contentHeight = 600, clientHeight = 500, rectHeight = 500,
          paddingTop = 0, paddingBottom = 0, offsetTop = (\<lambda>e. 0), scrollBehavior = Auto\<rparr>]
       \<lparr>latched = True, lastScrollTop = 100\<rparr>)"
proof -
  let ?e1 = "\<lparr>scrollTop = 99, contentHeight = 600, clientHeight = 500, rectHeight = 500,
          paddingTop = 0, paddingBottom = 0, offsetTop = (\<lambda>e::nat. 0::real),
          scrollBehavior = Auto\<rparr>"
  let ?e2 = "\<lparr>scrollTop = 98, contentHeight = 600, clientHeight = 500, rectHeight = 500,
          paddingTop = 0, paddingBottom = 0, offsetTop = (\<lambda>e::nat. 0::real),
          scrollBehavior = Auto\<rparr>"
  let ?l = "\<lparr>latched = True, lastScrollTop = 100\<rparr>"
  have h1: "decreasingFrom (lastScrollTop ?l) (map scrollTop [?e1, ?e2])" by simp
  have h2: "[?e1, ?e2] \<noteq> []" by simp
  from latch_disengaged_while_scrolling_up [OF h1 h2, of DEFAULT_CONFIG]
  have "\<forall>n \<in> {1..length [?e1, ?e2]}. \<not> latched (handleScrolls DEFAULT_CONFIG (take n [?e1, ?e2]) ?l)"
    by blast
  then have "\<not> latched (handleScrolls DEFAULT_CONFIG (take 2 [?e1, ?e2]) ?l)"
    by (rule bspec) simp
  then show ?thesis using h1 by simp
qed

section \<open>Calling \<^verbatim>\<open>enforce\<close> twice\<close>

text \<open>
  C6.  \<^verbatim>\<open>enforce\<close> is not idempotent when the content is shorter than the viewport.
  With 200 units of content in a viewport 500 high and a target at offset 100, the
  first call returns a padding of 101; the second call, with the same arguments on the
  state the first one left, subtracts that padding from a scroll height that still
  reads 500 and returns 202.  This holds with and without \<^verbatim>\<open>forceSnap\<close>.
\<close>

theorem enforce_twice_pads_twice:
  "res_padding (fst (enforce None True
      (\<lparr>scrollTop = 0, contentHeight = 200, clientHeight = 500, rectHeight = 500,
        paddingTop = 16, paddingBottom = 0, offsetTop = (\<lambda>e. 116), scrollBehavior = Auto\<rparr>,
       \<lparr>target = Some 0, isSnapped = True\<rparr>))) = 101
   \<and> res_padding (fst (enforce None True (snd (enforce None True
      (\<lparr>scrollTop = 0, contentHeight = 200, clientHeight = 500, rectHeight = 500,
        paddingTop = 16, paddingBottom = 0, offsetTop = (\<lambda>e. 116), scrollBehavior = Auto\<rparr>,
       \<lparr>target = Some 0, isSnapped = True\<rparr>))))) = 202
   \<and> res_padding (fst (enforce None False
      (\<lparr>scrollTop = 0, contentHeight = 200, clientHeight = 500, rectHeight = 500,
        paddingTop = 16, paddingBottom = 0, offsetTop = (\<lambda>e. 116), scrollBehavior = Auto\<rparr>,
       \<lparr>target = Some 0, isSnapped = True\<rparr>))) = 101
   \<and> res_padding (fst (enforce None False (snd (enforce None False
      (\<lparr>scrollTop = 0, contentHeight = 200, clientHeight = 500, rectHeight = 500,
        paddingTop = 16, paddingBottom = 0, offsetTop = (\<lambda>e. 116), scrollBehavior = Auto\<rparr>,
       \<lparr>target = Some 0, isSnapped = True\<rparr>))))) = 202"
  by (simp add: enforce_def Let_def neededPadding_def maxNaturalScroll_def viewportHeight_def
      calculateOffset_def getContainerPadding_def js_or_def scrollHeight_def
      set_paddingBottom_def set_scrollTop_def clampScroll_def maxScrollTop_def)

section \<open>Scrolling to the bottom\<close>

text \<open>
  C7.  \<^verbatim>\<open>scrollToBottom\<close> clears the snap target (\<^verbatim>\<open>getTarget()\<close> then returns none) and
  the bottom padding, keeps the content, the client height, the latch and the streaming
  flag as they were, and scrolls the viewport to its maximum scroll offset, the content
  height minus the client height (0 when the content fits): without \<^verbatim>\<open>smooth\<close> the
  viewport is there when the call returns; with \<^verbatim>\<open>smooth\<close> the call starts a smooth
  scroll with that destination (the offset it returns with is the old one, kept in
  range), and the viewport is there when the scroll ends.
\<close>

theorem scrollToBottom_effects:
  "getTarget (snapLayout (scrollToBottom smooth cv)) = None
   \<and> \<not> isSnapped (snapLayout (scrollToBottom smooth cv))
   \<and> isStreaming (scrollToBottom smooth cv) = isStreaming cv
   \<and> scrollLatch (scrollToBottom smooth cv) = scrollLatch cv
   \<and> pendingFrames (scrollToBottom smooth cv) = pendingFrames cv
   \<and> contentHeight (container (scrollToBottom smooth cv)) = contentHeight (container cv)
   \<and> clientHeight (container (scrollToBottom smooth cv)) = clientHeight (container cv)
   \<and> offsetTop (container (scrollToBottom smooth cv)) = offsetTop (container cv)
   \<and> rectHeight (container (scrollToBottom smooth cv)) = rectHeight (container cv)
   \<and> paddingTop (container (scrollToBottom smooth cv)) = paddingTop (container cv)
   \<and> paddingBottom (container (scrollToBottom smooth cv)) = 0
   \<and> maxScrollTop (container (scrollToBottom smooth cv))
       = max 0 (contentHeight (container cv) - real (clientHeight (container cv)))
   \<and> scrollTop (container (scrollToBottom False cv))
       = max 0 (contentHeight (container cv) - real (clientHeight (container cv)))
   \<and> smoothScroll (scrollToBottom False cv) = None
   \<and> scrollTop (container (scrollToBottom True cv))
       = max 0 (min (scrollTop (container cv))
           (max 0 (contentHeight (container cv) - real (clientHeight (container cv)))))
   \<and> smoothScroll (scrollToBottom True cv)
       = Some (max 0 (contentHeight (container cv) - real (clientHeight (container cv))))
   \<and> scrollTop (container (finishSmoothScroll (scrollToBottom True cv)))
       = max 0 (contentHeight (container cv) - real (clientHeight (container cv)))"
proof -
  have m: "max (real n) x - real n = max 0 (x - real n)" for n :: nat and x :: real
    by (simp add: max_def)
  show ?thesis
    by (simp add: scrollToBottom_def finishSmoothScroll_def snap_clear_def getTarget_def
        scrollTo_def clampScroll_def maxScrollTop_def scrollHeight_def set_paddingBottom_def
        Let_def m)
qed

section \<open>Clamped values and errors\<close>

text \<open>
  C8.  The values the snap layout computes are clamped and no operation throws: for
  every element offset, top padding, content height and viewport height,
  \<^verbatim>\<open>calculateOffset(element)\<close>, the padding \<^verbatim>\<open>enforce\<close> computes and returns, the bottom
  padding it applies and the scroll offset it leaves are never negative;
  \<^verbatim>\<open>calculateOffset\<close> of an element and
  \<^verbatim>\<open>enforce\<close> in every state, with or without a target, return a value and raise no
  \<^verbatim>\<open>TypeError\<close>; and \<^verbatim>\<open>scrollToMessage(null)\<close> returns without any effect.
\<close>

theorem layout_values_nonneg_no_throw:
  "0 \<le> calculateOffset c e
   \<and> 0 \<le> neededPadding oh c e
   \<and> 0 \<le> res_padding (fst (enforce oh f (c, s)))
   \<and> 0 \<le> paddingBottom (fst (snd (enforce oh f (c, s\<lparr>target := Some e\<rparr>))))
   \<and> 0 \<le> scrollTop (fst (snd (enforce oh f (c, s\<lparr>target := Some e\<rparr>))))
   \<and> calculateOffset_js c (Some e) = Inr (calculateOffset c e)
   \<and> enforce_js oh f (c, s) = Inr (enforce oh f (c, s))
   \<and> scrollToMessage None cv = cv"
proof -
  have 1: "0 \<le> res_padding (fst (enforce oh f (c, s)))"
    by (cases "target s") (simp_all add: enforce_def Let_def neededPadding_nonneg)
  have 2: "0 \<le> paddingBottom (fst (snd (enforce oh f (c, s\<lparr>target := Some e\<rparr>))))"
    by (simp add: enforce_padding neededPadding_nonneg)
  have 6: "0 \<le> scrollTop (fst (snd (enforce oh f (c, s\<lparr>target := Some e\<rparr>))))"
    by (simp add: enforce_def Let_def set_scrollTop_fields clampScroll_range
        scrollTop_set_paddingBottom_range calculateOffset_nonneg)
  have 3: "calculateOffset_js c (Some e) = Inr (calculateOffset c e)"
    by (simp add: calculateOffset_js_def calculateOffset_def)
  have 4: "enforce_js oh f (c, s) = Inr (enforce oh f (c, s))"
    by (cases "target s") (simp_all add: enforce_js_def calculateOffset_js_def enforce_def)
  have 5: "scrollToMessage None cv = cv"
    by (simp add: scrollToMessage_def)
  from 1 2 3 4 5 6 show ?thesis
    by (simp add: calculateOffset_nonneg neededPadding_nonneg)
qed

section \<open>\<^verbatim>\<open>enforce\<close> without a target\<close>

text \<open>
  C9.  If no snap target is set, \<^verbatim>\<open>enforce(overrideHeight, forceSnap)\<close> returns
  \<^verbatim>\<open>{ isSnapped: false, padding: 0 }\<close> and leaves the container (its bottom padding and
  scroll offset included) and the engine state unchanged, also when \<^verbatim>\<open>forceSnap\<close> is
  true.
\<close>

theorem enforce_without_target:
  assumes "getTarget s = None"
  shows "enforce oh f (c, s) = (\<lparr>res_isSnapped = False, res_padding = 0\<rparr>, c, s)"
  using assms by (simp add: enforce_def getTarget_def)

theorem enforce_without_target_witness:
  "getTarget snap_init = None
   \<and> enforce (Some 480) True
       (\<lparr>scrollTop = 37, contentHeight = 200, clientHeight = 500, rectHeight = 500,
         paddingTop = 16, paddingBottom = 12, offsetTop = (\<lambda>e. 116), scrollBehavior = Auto\<rparr>,
        snap_init)
     = (\<lparr>res_isSnapped = False, res_padding = 0\<rparr>,
        \<lparr>scrollTop = 37, contentHeight = 200, clientHeight = 500, rectHeight = 500,
         paddingTop = 16, paddingBottom = 12, offsetTop = (\<lambda>e. 116), scrollBehavior = Auto\<rparr>,
        snap_init)"
proof -
  have h: "getTarget snap_init = None" by (simp add: getTarget_def snap_init_def)
  from enforce_without_target [OF h] show ?thesis using h by simp
qed

section \<open>The attachment limit\<close>

text \<open>
  C10.  The attachment list can exceed \<^verbatim>\<open>MAX_ATTACHMENTS\<close>.  \<^verbatim>\<open>handleFiles\<close> counts the
  attachments already pushed, not the reads still pending: three files are selected,
  three more are selected before any of the first reads has finished, and when the six
  readers fire the list has six entries.
\<close>

theorem attachments_exceed_max_with_pending_reads:
  "length (attachments (prompt_run
     [SelectFiles [\<lparr>file_name = ''a.png'', file_type = ''image/png''\<rparr>,
                   \<lparr>file_name = ''b.png'', file_type = ''image/png''\<rparr>,
                   \<lparr>file_name = ''c.pdf'', file_type = ''application/pdf''\<rparr>],
      SelectFiles [\<lparr>file_name = ''d.png'', file_type = ''image/png''\<rparr>,
                   \<lparr>file_name = ''e.mp4'', file_type = ''video/mp4''\<rparr>,
                   \<lparr>file_name = ''f.txt'', file_type = ''text/plain''\<rparr>],
      Loaded 0 ''data:1'', Loaded 0 ''data:2'', Loaded 0 ''data:3'',
      Loaded 0 ''data:4'', Loaded 0 ''data:5'', Loaded 0 ''data:6'']
     prompt_init)) = 6
   \<and> \<not> int (length (attachments (prompt_run
     [SelectFiles [\<lparr>file_name = ''a.png'', file_type = ''image/png''\<rparr>,
                   \<lparr>file_name = ''b.png'', file_type = ''image/png''\<rparr>,
                   \<lparr>file_name = ''c.pdf'', file_type = ''application/pdf''\<rparr>],
      SelectFiles [\<lparr>file_name = ''d.png'', file_type = ''image/png''\<rparr>,
                   \<lparr>file_name = ''e.mp4'', file_type = ''video/mp4''\<rparr>,
                   \<lparr>file_name = ''f.txt'', file_type = ''text/plain''\<rparr>],
      Loaded 0 ''data:1'', Loaded 0 ''data:2'', Loaded 0 ''data:3'',
      Loaded 0 ''data:4'', Loaded 0 ''data:5'', Loaded 0 ''data:6'']
     prompt_init))) \<le> MAX_ATTACHMENTS"
  by (simp add: prompt_init_def handleFiles_def onload_def MAX_ATTACHMENTS_def Let_def)

end
